theory Spec2Isabelle
  imports Complex_Main "HOL-Library.Sublist"
begin

section \<open>Request and response models of \<^verbatim>\<open>main.py\<close>\<close>

text \<open>
  The pydantic models of lines 34 to 86, one record each. Field names carry the initials
  of their model, since several models share the names \<^verbatim>\<open>id\<close>, \<^verbatim>\<open>name\<close>,
  \<^verbatim>\<open>items\<close> and \<^verbatim>\<open>total\<close>. Python integers are unbounded, hence \<^typ>\<open>int\<close>.
  Python's \<^verbatim>\<open>float\<close> is the type variable \<open>'p\<close>: the handlers only add, multiply
  and compare prices, through the syntactic type classes \<open>zero\<close>, \<open>plus\<close>, \<open>times\<close>
  and \<open>ord\<close>, and no law of arithmetic is assumed of them,
  so whatever is proved holds of rounding arithmetic as well.

  A product name is matched by the store character by character, so it is the list of
  the code points of the Python \<^verbatim>\<open>str\<close>, each a natural number. The other strings
  (identifiers, user names, size labels, error details) are only copied, compared for
  equality or given to \<^verbatim>\<open>ObjectId\<close>, and are of type \<^typ>\<open>string\<close>.
\<close>

definition code_points :: "string \<Rightarrow> nat list" where
  "code_points s = map of_char s"

record Size =
  size_S :: string
  quantity_S :: int

record 'p Product =
  name_P :: "nat list"
  price_P :: 'p
  sizes_P :: "Size list"

record ProductResponse =
  id_PR :: string

record 'p ProductListItem =
  id_PLI :: string
  name_PLI :: "nat list"
  price_PLI :: 'p

record PageInfo =
  next_PI :: "int option"
  limit_PI :: int
  previous_PI :: "int option"

record 'p ProductListResponse =
  data_PLR :: "'p ProductListItem list"
  page_PLR :: PageInfo

record OrderItem =
  productid_OI :: string
  qty_OI :: int

record CreateOrder =
  userId_CO :: string
  items_CO :: "OrderItem list"

record OrderResponse =
  id_OR :: string

record ProductDetails =
  name_PD :: "nat list"
  id_PD :: string

record OrderItemDetail =
  productDetails_OID :: ProductDetails
  qty_OID :: int

record 'p OrderDetail =
  id_OD :: string
  items_OD :: "OrderItemDetail list"
  total_OD :: 'p

record 'p OrderListResponse =
  data_OLR :: "'p OrderDetail list"
  page_OLR :: PageInfo

section \<open>Stored documents\<close>

text \<open>
  The two collections hold the dictionaries that \<^verbatim>\<open>create_product\<close> (line 116) and
  \<^verbatim>\<open>create_order\<close> (lines 193 and 201) build, with the \<^verbatim>\<open>_id\<close> the driver adds on
  insertion. No other code writes to them, so a collection is a list of such documents in
  insertion order. \<open>'oid\<close> is the type of \<^verbatim>\<open>bson.ObjectId\<close>; \<^verbatim>\<open>datetime\<close> values are
  natural numbers.
\<close>

record ('oid, 'p) product_doc =
  id_prod :: 'oid
  name_prod :: "nat list"
  price_prod :: 'p
  sizes_prod :: "Size list"
  created_at_prod :: nat

record 'p line_doc =
  productid_line :: string
  qty_line :: int
  price_line :: 'p
  item_total_line :: 'p

record ('oid, 'p) order_doc =
  id_ord :: 'oid
  userId_ord :: string
  items_ord :: "'p line_doc list"
  total_ord :: 'p
  status_ord :: string
  created_at_ord :: nat

record ('oid, 'p) database =
  products_collection :: "('oid, 'p) product_doc list"
  orders_collection :: "('oid, 'p) order_doc list"

section \<open>What the libraries and the store provide\<close>

text \<open>
  \<^verbatim>\<open>main.py\<close> calls operations whose code is in \<^verbatim>\<open>bson\<close>, in the Python runtime,
  in the driver and in the store. They are parameters of the development:
  \<^item> \<open>ObjectId\<close>: the constructor \<^verbatim>\<open>ObjectId(s)\<close> on a string, \<open>None\<close> where it
    raises \<^verbatim>\<open>InvalidId\<close>;
  \<^item> \<open>str_ObjectId\<close>: \<^verbatim>\<open>str(oid)\<close>, which is also what \<^verbatim>\<open>$toString\<close> yields in
    the aggregation;
  \<^item> \<open>int_to_float\<close>: the conversion of the \<^verbatim>\<open>int\<close> operand in
    \<^verbatim>\<open>product["price"] * item.qty\<close>, \<open>None\<close> where it raises \<^verbatim>\<open>OverflowError\<close>;
  \<^item> \<open>matches_caseless\<close>: whether, under option \<^verbatim>\<open>i\<close>, the store's regular
    expressions let a literal character of a pattern (the first argument) match a
    character of the subject (the second);
  \<^item> \<open>accepts_pattern\<close>: whether driver and store take a pattern (the store does not
    compile, for one, a pattern with a NUL character or a pattern that is too long);
  \<^item> \<open>accepts_skip\<close>: whether driver and store take a number as the count of
    \<^verbatim>\<open>skip\<close> and \<^verbatim>\<open>$skip\<close> (the driver cannot encode an integer of more than 64 bits);
  \<^item> \<open>accepts_product\<close> and \<open>accepts_order\<close>: whether \<^verbatim>\<open>insert_one\<close> stores a
    document (the driver cannot encode an integer of more than 64 bits in it, and the
    store refuses a document above its size limit).
  A call that is refused raises, and the handler's \<^verbatim>\<open>except Exception\<close> answers with
  status 500. Nothing is assumed of the parameters; in particular \<open>str_ObjectId\<close> need
  not give back the string an identifier was parsed from, and \<open>matches_caseless\<close> need
  not be symmetric.
\<close>

record ('oid, 'p) runtime =
  ObjectId :: "string \<Rightarrow> 'oid option"
  str_ObjectId :: "'oid \<Rightarrow> string"
  int_to_float :: "int \<Rightarrow> 'p option"
  matches_caseless :: "nat \<Rightarrow> nat \<Rightarrow> bool"
  accepts_pattern :: "nat list \<Rightarrow> bool"
  accepts_skip :: "int \<Rightarrow> bool"
  accepts_product :: "('oid, 'p) product_doc \<Rightarrow> bool"
  accepts_order :: "('oid, 'p) order_doc \<Rightarrow> bool"

section \<open>Errors\<close>

text \<open>
  A handler fails in one of two ways. FastAPI rejects a request whose parameters or body
  violate the declared constraints (\<^verbatim>\<open>Query(..., ge=1, le=100)\<close>, \<^verbatim>\<open>Field(gt=0)\<close>)
  before the handler body runs, with a \<^verbatim>\<open>RequestValidationError\<close> that lists the
  location of every offending value. The handler body itself raises
  \<^verbatim>\<open>HTTPException(status_code, detail)\<close>.
\<close>

datatype loc_part = Name string | Index nat

datatype error =
  RequestValidationError "loc_part list list"
| HTTPException int string

text \<open>
  The status of the response. \<^verbatim>\<open>main.py\<close> registers no exception handler, so a
  \<^verbatim>\<open>RequestValidationError\<close> is answered by FastAPI's own handler, with status 422.
\<close>

fun status_code :: "error \<Rightarrow> int" where
  "status_code (RequestValidationError errs) = 422"
| "status_code (HTTPException code detail) = code"

section \<open>Declared constraints\<close>

text \<open>
  \<^verbatim>\<open>limit: int = Query(10, ge=1, le=100)\<close> and \<^verbatim>\<open>offset: int = Query(0, ge=0)\<close>,
  lines 131, 132, 222 and 223.
\<close>

definition Query_errors :: "int \<Rightarrow> int \<Rightarrow> loc_part list list" where
  "Query_errors limit offset =
     (if 1 \<le> limit \<and> limit \<le> 100 then [] else [[Name ''query'', Name ''limit'']]) @
     (if 0 \<le> offset then [] else [[Name ''query'', Name ''offset'']])"

text \<open>
  \<^verbatim>\<open>Size.quantity: int = Field(ge=0)\<close>, line 36, for each element of a list of sizes
  starting at index \<open>i\<close>.
\<close>

fun Size_errors :: "nat \<Rightarrow> Size list \<Rightarrow> loc_part list list" where
  "Size_errors i [] = []"
| "Size_errors i (s # ss) =
     (if 0 \<le> quantity_S s then []
      else [[Name ''body'', Name ''sizes'', Index i, Name ''quantity'']]) @
     Size_errors (Suc i) ss"

text \<open>
  \<^verbatim>\<open>Product\<close>, lines 38 to 41: \<^verbatim>\<open>price: float = Field(gt=0)\<close> and
  \<^verbatim>\<open>sizes: List[Size]\<close>. The list itself carries no constraint.
\<close>

definition Product_errors :: "('p::{zero,ord}) Product \<Rightarrow> loc_part list list" where
  "Product_errors product =
     (if 0 < price_P product then [] else [[Name ''body'', Name ''price'']]) @
     Size_errors 0 (sizes_P product)"

text \<open>\<^verbatim>\<open>OrderItem.qty: int = Field(gt=0)\<close>, line 62.\<close>

fun OrderItem_errors :: "nat \<Rightarrow> OrderItem list \<Rightarrow> loc_part list list" where
  "OrderItem_errors i [] = []"
| "OrderItem_errors i (item # rest) =
     (if 0 < qty_OI item then []
      else [[Name ''body'', Name ''items'', Index i, Name ''qty'']]) @
     OrderItem_errors (Suc i) rest"

text \<open>
  \<^verbatim>\<open>CreateOrder\<close>, lines 64 to 66: \<^verbatim>\<open>items: List[OrderItem]\<close>, again with no
  constraint on the list itself.
\<close>

definition CreateOrder_errors :: "CreateOrder \<Rightarrow> loc_part list list" where
  "CreateOrder_errors order = OrderItem_errors 0 (items_CO order)"

section \<open>Helpers\<close>

text \<open>
  \<^verbatim>\<open>create_pagination_info(offset, limit, total_count)\<close>, lines 97 to 106. The
  conditional expression on \<^verbatim>\<open>offset > 0\<close> occurs twice in the source (once when
  \<^verbatim>\<open>previous_offset\<close> is computed, once more in the constructor call) and is kept
  twice here.
\<close>

definition create_pagination_info :: "int \<Rightarrow> int \<Rightarrow> int \<Rightarrow> PageInfo" where
  "create_pagination_info offset limit total_count =
     (let next_offset = (if offset + limit < total_count then Some (offset + limit) else None);
          previous_offset = (if offset > 0 then Some (max 0 (offset - limit)) else None)
      in \<lparr>next_PI = next_offset,
          limit_PI = limit,
          previous_PI = (if offset > 0 then previous_offset else None)\<rparr>)"

section \<open>The name filter: \<^verbatim>\<open>re.escape\<close> and the store's \<^verbatim>\<open>$regex\<close>\<close>

text \<open>
  \<^verbatim>\<open>re.escape(name)\<close>, line 142. Python puts a backslash before each of the characters
  \<^verbatim>\<open>()[]{}?*+-|^$\.&~#\<close>, the space and the five control characters tab, newline,
  carriage return, vertical tab and form feed, and leaves every other character alone.
\<close>

definition backslash :: nat where
  "backslash = of_char (CHR 0x5C)"

definition re_special_chars :: "nat list" where
  "re_special_chars =
     code_points ''()[]{}?*+-|^$'' @ [backslash] @ code_points ''.&~# '' @
     code_points [CHR 0x09, CHR 0x0A, CHR 0x0D, CHR 0x0B, CHR 0x0C]"

fun re_escape :: "nat list \<Rightarrow> nat list" where
  "re_escape [] = []"
| "re_escape (c # cs) =
     (if c \<in> set re_special_chars then backslash # c # re_escape cs else c # re_escape cs)"

text \<open>
  The pattern reaches the store as \<^verbatim>\<open>{"$regex": pattern, "$options": "i"}\<close>. The store's
  regular expressions are Perl compatible. The part of that syntax kept here is: an
  ordinary character stands for itself; a backslash before a character that is neither
  an ASCII letter nor a digit makes it stand for itself; \<^verbatim>\<open>.\<close> stands for any
  character but a newline; \<^verbatim>\<open>*\<close> after one of these repeats it any number of times. A
  pattern that uses anything else (groups, classes, alternation, anchors, the other
  quantifiers, a backslash before a letter or digit) is outside this part and is not
  parsed.
\<close>

datatype atom = Lit nat | AnyChar

datatype piece = Once atom | Star atom

definition alnum_chars :: "nat list" where
  "alnum_chars =
     code_points ''abcdefghijklmnopqrstuvwxyzABCDEFGHIJKLMNOPQRSTUVWXYZ0123456789''"

definition other_meta_chars :: "nat list" where
  "other_meta_chars = code_points ''()[]{}?+|^$''"

definition star :: nat where
  "star = of_char CHR ''*''"

definition dot :: nat where
  "dot = of_char CHR ''.''"

definition newline :: nat where
  "newline = of_char (CHR 0x0A)"

fun quantified :: "atom \<Rightarrow> nat list \<Rightarrow> piece \<times> nat list" where
  "quantified a [] = (Once a, [])"
| "quantified a (c # cs) = (if c = star then (Star a, cs) else (Once a, c # cs))"

function parse_regex :: "nat list \<Rightarrow> piece list option" where
  "parse_regex [] = Some []"
| "parse_regex (c # cs) =
     (if c = backslash then
        (case cs of
           [] \<Rightarrow> None
         | d # ds \<Rightarrow>
             if d \<in> set alnum_chars then None
             else map_option ((#) (fst (quantified (Lit d) ds)))
                    (parse_regex (snd (quantified (Lit d) ds))))
      else if c = star \<or> c \<in> set other_meta_chars then None
      else map_option ((#) (fst (quantified (if c = dot then AnyChar else Lit c) cs)))
             (parse_regex (snd (quantified (if c = dot then AnyChar else Lit c) cs))))"
  by pat_completeness auto
termination
proof (relation "measure length")
  show "wf (measure length)" by simp
next
  fix c d :: nat and cs ds :: "nat list"
  assume "cs = d # ds"
  moreover have "length (snd (quantified (Lit d) ds)) \<le> length ds"
    by (cases ds) auto
  ultimately show "(snd (quantified (Lit d) ds), c # cs) \<in> measure length" by simp
next
  fix c :: nat and cs :: "nat list"
  have "length (snd (quantified (if c = dot then AnyChar else Lit c) cs)) \<le> length cs"
    by (cases cs) auto
  then show "(snd (quantified (if c = dot then AnyChar else Lit c) cs), c # cs)
      \<in> measure length" by simp
qed

text \<open>
  Whether an atom matches a character of the subject. The first argument says how a
  literal is compared with a character: under option \<^verbatim>\<open>i\<close> it is the store's
  comparison without regard to case.
\<close>

fun atom_matches :: "(nat \<Rightarrow> nat \<Rightarrow> bool) \<Rightarrow> atom \<Rightarrow> nat \<Rightarrow> bool" where
  "atom_matches cmp AnyChar c = (c \<noteq> newline)"
| "atom_matches cmp (Lit a) c = cmp a c"

text \<open>Whether the pieces match a prefix of the string.\<close>

fun match_here :: "(nat \<Rightarrow> nat \<Rightarrow> bool) \<Rightarrow> piece list \<Rightarrow> nat list \<Rightarrow> bool" where
  "match_here cmp [] s = True"
| "match_here cmp (Once a # ps) [] = False"
| "match_here cmp (Once a # ps) (c # cs) = (atom_matches cmp a c \<and> match_here cmp ps cs)"
| "match_here cmp (Star a # ps) [] = match_here cmp ps []"
| "match_here cmp (Star a # ps) (c # cs) =
     (match_here cmp ps (c # cs) \<or> (atom_matches cmp a c \<and> match_here cmp (Star a # ps) cs))"

text \<open>\<^verbatim>\<open>$regex\<close> is unanchored: the pattern may match at any position.\<close>

fun regex_search :: "(nat \<Rightarrow> nat \<Rightarrow> bool) \<Rightarrow> piece list \<Rightarrow> nat list \<Rightarrow> bool" where
  "regex_search cmp ps [] = match_here cmp ps []"
| "regex_search cmp ps (c # cs) = (match_here cmp ps (c # cs) \<or> regex_search cmp ps cs)"

section \<open>Queries on the products collection\<close>

text \<open>
  The dictionary \<^verbatim>\<open>query_filter\<close> of \<^verbatim>\<open>list_products\<close> has at most the two keys
  \<^verbatim>\<open>"name"\<close>, holding \<^verbatim>\<open>{"$regex": pattern, "$options": "i"}\<close>, and
  \<^verbatim>\<open>"sizes.size"\<close>, holding a value that some element of the array \<^verbatim>\<open>sizes\<close> must
  have as its \<^verbatim>\<open>size\<close>. A document matches when it meets every key present.
\<close>

record query_filter =
  name_regex :: "nat list option"
  sizes_size :: "string option"

text \<open>
  Lines 138 to 146. \<^verbatim>\<open>if name:\<close> and \<^verbatim>\<open>if size:\<close> are false for \<^verbatim>\<open>None\<close> and for the
  empty string.
\<close>

definition build_query_filter :: "nat list option \<Rightarrow> string option \<Rightarrow> query_filter" where
  "build_query_filter name size_label =
     \<lparr>name_regex = (case name of None \<Rightarrow> None
                     | Some n \<Rightarrow> if n \<noteq> [] then Some (re_escape n) else None),
      sizes_size = (case size_label of None \<Rightarrow> None
                     | Some v \<Rightarrow> if v \<noteq> [] then Some v else None)\<rparr>"

definition matches ::
  "(nat \<Rightarrow> nat \<Rightarrow> bool) \<Rightarrow> piece list option \<Rightarrow> string option \<Rightarrow> ('oid, 'p) product_doc \<Rightarrow> bool" where
  "matches cmp regex label doc =
     ((case regex of None \<Rightarrow> True | Some ps \<Rightarrow> regex_search cmp ps (name_prod doc)) \<and>
      (case label of None \<Rightarrow> True | Some v \<Rightarrow> v \<in> set (map size_S (sizes_prod doc))))"

text \<open>
  The documents a query selects, in the order of the collection. The store raises on a
  pattern it does not compile; here that is \<open>None\<close>, for a pattern the store does not
  accept and for one that is not parsed.
\<close>

definition select_docs ::
  "('oid, 'p) runtime \<Rightarrow> ('oid, 'p) product_doc list \<Rightarrow> query_filter \<Rightarrow>
     ('oid, 'p) product_doc list option" where
  "select_docs rt docs q =
     (case name_regex q of
        None \<Rightarrow> Some (filter (matches (matches_caseless rt) None (sizes_size q)) docs)
      | Some pattern \<Rightarrow>
          if \<not> accepts_pattern rt pattern then None
          else
            (case parse_regex pattern of
               None \<Rightarrow> None
             | Some ps \<Rightarrow>
                 Some (filter (matches (matches_caseless rt) (Some ps) (sizes_size q)) docs)))"

text \<open>\<^verbatim>\<open>count_documents(query_filter)\<close>, line 149.\<close>

definition count_documents ::
  "('oid, 'p) runtime \<Rightarrow> ('oid, 'p) product_doc list \<Rightarrow> query_filter \<Rightarrow> int option" where
  "count_documents rt docs q = map_option (\<lambda>ds. int (length ds)) (select_docs rt docs q)"

text \<open>
  \<^verbatim>\<open>find(query_filter, {"name": 1, "price": 1}).sort("_id", 1).skip(offset).limit(limit)\<close>,
  lines 152 to 155, as the loop of line 158 reads it. The projection is applied where
  the documents are turned into list items, below. A count the driver or the store does
  not take as \<^verbatim>\<open>skip\<close> makes the call raise. The limit is between 1 and 100 when the
  handler body runs.
\<close>

definition find_sorted_page ::
  "('oid::linorder, 'p) runtime \<Rightarrow> ('oid, 'p) product_doc list \<Rightarrow> query_filter \<Rightarrow> int \<Rightarrow> int \<Rightarrow>
     ('oid, 'p) product_doc list option" where
  "find_sorted_page rt docs q offset limit =
     (if \<not> accepts_skip rt offset then None
      else map_option (\<lambda>ds. take (nat limit) (drop (nat offset) (sort_key id_prod ds)))
             (select_docs rt docs q))"

text \<open>
  \<^verbatim>\<open>find_one({"_id": product_id})\<close> on the products collection, line 186: the first
  document with that identifier, if any.
\<close>

definition find_one :: "('oid, 'p) product_doc list \<Rightarrow> 'oid \<Rightarrow> ('oid, 'p) product_doc option" where
  "find_one docs product_id = find (\<lambda>doc. id_prod doc = product_id) docs"

section \<open>The endpoints\<close>

subsection \<open>\<^verbatim>\<open>POST /products\<close>\<close>

text \<open>
  \<^verbatim>\<open>create_product\<close>, lines 110 to 125. \<open>oid\<close> is the identifier the driver gives the
  inserted document and \<open>now\<close> the value of \<^verbatim>\<open>datetime.utcnow()\<close>. An
  \<^verbatim>\<open>insert_one\<close> that is refused raises and is answered with status 500 (line 125);
  the message of the exception, which the source appends to the detail, is left out.
  Apart from the refusals that the parameters describe, the store is taken to carry out
  what it is asked, here and below: a connection that fails is not part of this
  development.
\<close>

definition create_product ::
  "('oid, 'p::{zero,ord}) runtime \<Rightarrow> ('oid, 'p) database \<Rightarrow> 'oid \<Rightarrow> nat \<Rightarrow> 'p Product \<Rightarrow>
     (error + ProductResponse) \<times> ('oid, 'p) database" where
  "create_product rt db oid now product =
     (case Product_errors product of
        e # es \<Rightarrow> (Inl (RequestValidationError (e # es)), db)
      | [] \<Rightarrow>
          let product_dict =
                \<lparr>id_prod = oid, name_prod = name_P product, price_prod = price_P product,
                 sizes_prod = sizes_P product, created_at_prod = now\<rparr>
          in if accepts_product rt product_dict
             then (Inr \<lparr>id_PR = str_ObjectId rt oid\<rparr>,
                   db\<lparr>products_collection := products_collection db @ [product_dict]\<rparr>)
             else (Inl (HTTPException 500 ''Failed to create product: ''), db))"

subsection \<open>\<^verbatim>\<open>GET /products\<close>\<close>

text \<open>
  Lines 158 to 160: \<^verbatim>\<open>serialize_object_id\<close> replaces \<^verbatim>\<open>_id\<close> by \<^verbatim>\<open>id = str(_id)\<close>,
  and \<^verbatim>\<open>ProductListItem(**product)\<close> is built from the projected document, which holds
  \<^verbatim>\<open>_id\<close>, \<^verbatim>\<open>name\<close> and \<^verbatim>\<open>price\<close>.
\<close>

definition serialize_object_id :: "('oid, 'p) runtime \<Rightarrow> ('oid, 'p) product_doc \<Rightarrow> 'p ProductListItem" where
  "serialize_object_id rt doc =
     \<lparr>id_PLI = str_ObjectId rt (id_prod doc), name_PLI = name_prod doc, price_PLI = price_prod doc\<rparr>"

text \<open>
  \<^verbatim>\<open>list_products\<close>, lines 127 to 168. A store call that raises is caught by
  \<^verbatim>\<open>except Exception\<close> and becomes status 500; the store's message, which the source
  appends to the detail, is left out. The result is what the handler returns; turning
  it into the body of the response is FastAPI's.
\<close>

definition list_products ::
  "('oid::linorder, 'p) runtime \<Rightarrow> ('oid, 'p) database \<Rightarrow> nat list option \<Rightarrow> string option \<Rightarrow>
     int \<Rightarrow> int \<Rightarrow> error + 'p ProductListResponse" where
  "list_products rt db name size_label limit offset =
     (case Query_errors limit offset of
        e # es \<Rightarrow> Inl (RequestValidationError (e # es))
      | [] \<Rightarrow>
          let query_filter = build_query_filter name size_label in
          (case count_documents rt (products_collection db) query_filter of
             None \<Rightarrow> Inl (HTTPException 500 ''Failed to fetch products: '')
           | Some total_count \<Rightarrow>
               (case find_sorted_page rt (products_collection db) query_filter offset limit of
                  None \<Rightarrow> Inl (HTTPException 500 ''Failed to fetch products: '')
                | Some cursor \<Rightarrow>
                    let products = map (serialize_object_id rt) cursor;
                        page_info = create_pagination_info offset limit total_count
                    in Inr \<lparr>data_PLR = products, page_PLR = page_info\<rparr>)))"

subsection \<open>\<^verbatim>\<open>POST /orders\<close>\<close>

text \<open>
  The loop of lines 180 to 198, with its two accumulators \<^verbatim>\<open>total_amount\<close> and
  \<^verbatim>\<open>validated_items\<close>. The last argument records the identifiers that have been looked
  up with \<^verbatim>\<open>find_one\<close> so far, in order, and is returned with the result. The three
  ways out of the loop are the two \<^verbatim>\<open>HTTPException\<close>s of lines 184 and 188 and the
  \<^verbatim>\<open>OverflowError\<close> of the multiplication in line 190, which the handler's
  \<^verbatim>\<open>except Exception\<close> turns into status 500 (line 217).
\<close>

fun validate_items ::
  "('oid, 'p::{plus,times}) runtime \<Rightarrow> ('oid, 'p) product_doc list \<Rightarrow> OrderItem list \<Rightarrow>
     'p \<Rightarrow> 'p line_doc list \<Rightarrow> 'oid list \<Rightarrow> (error + 'p \<times> 'p line_doc list) \<times> 'oid list" where
  "validate_items rt products [] total_amount validated_items lookups =
     (Inr (total_amount, validated_items), lookups)"
| "validate_items rt products (item # rest) total_amount validated_items lookups =
     (case ObjectId rt (productid_OI item) of
        None \<Rightarrow>
          (Inl (HTTPException 400 (''Invalid product ID: '' @ productid_OI item)), lookups)
      | Some product_id \<Rightarrow>
          (case find_one products product_id of
             None \<Rightarrow>
               (Inl (HTTPException 404 (''Product not found: '' @ productid_OI item)),
                lookups @ [product_id])
           | Some product \<Rightarrow>
               (case int_to_float rt (qty_OI item) of
                  None \<Rightarrow>
                    (Inl (HTTPException 500
                       ''Failed to create order: int too large to convert to float''),
                     lookups @ [product_id])
                | Some qty \<Rightarrow>
                    let item_total = price_prod product * qty in
                    validate_items rt products rest (total_amount + item_total)
                      (validated_items @
                         [\<lparr>productid_line = productid_OI item, qty_line = qty_OI item,
                           price_line = price_prod product, item_total_line = item_total\<rparr>])
                      (lookups @ [product_id]))))"

text \<open>
  \<^verbatim>\<open>create_order\<close>, lines 170 to 217. \<open>oid\<close> and \<open>now\<close> are as in
  \<^verbatim>\<open>create_product\<close>. The only write is the \<^verbatim>\<open>insert_one\<close> of line 210; when
  it is refused, it raises, nothing is stored and lines 216 and 217 answer with status
  500.
\<close>

definition create_order ::
  "('oid, 'p::{zero,plus,times}) runtime \<Rightarrow> ('oid, 'p) database \<Rightarrow> 'oid \<Rightarrow> nat \<Rightarrow> CreateOrder \<Rightarrow>
     (error + OrderResponse) \<times> ('oid, 'p) database" where
  "create_order rt db oid now order =
     (case CreateOrder_errors order of
        e # es \<Rightarrow> (Inl (RequestValidationError (e # es)), db)
      | [] \<Rightarrow>
          (case fst (validate_items rt (products_collection db) (items_CO order) 0 [] []) of
             Inl err \<Rightarrow> (Inl err, db)
           | Inr (total_amount, validated_items) \<Rightarrow>
               let order_dict =
                     \<lparr>id_ord = oid, userId_ord = userId_CO order, items_ord = validated_items,
                      total_ord = total_amount, status_ord = ''created'', created_at_ord = now\<rparr>
               in if accepts_order rt order_dict
                  then (Inr \<lparr>id_OR = str_ObjectId rt oid\<rparr>,
                        db\<lparr>orders_collection := orders_collection db @ [order_dict]\<rparr>)
                  else (Inl (HTTPException 500 ''Failed to create order: ''), db)))"

subsection \<open>\<^verbatim>\<open>GET /orders/{user_id}\<close>\<close>

text \<open>
  The \<^verbatim>\<open>$lookup\<close> stage, lines 232 to 251: for one order, the products whose
  \<^verbatim>\<open>$toString\<close> of \<^verbatim>\<open>_id\<close> is among the \<^verbatim>\<open>productid\<close>s of the order's items,
  projected to \<^verbatim>\<open>_id\<close> and \<^verbatim>\<open>name\<close>.
\<close>

definition product_details ::
  "('oid, 'p) runtime \<Rightarrow> ('oid, 'p) product_doc list \<Rightarrow> ('oid, 'p) order_doc \<Rightarrow>
     ('oid \<times> nat list) list" where
  "product_details rt products order_doc =
     map (\<lambda>p. (id_prod p, name_prod p))
       (filter (\<lambda>p. str_ObjectId rt (id_prod p) \<in> set (map productid_line (items_ord order_doc)))
          products)"

text \<open>
  Line 260, \<^verbatim>\<open>{str(p["_id"]): p for p in order_doc["product_details"]}\<close>: a later
  entry replaces an earlier one with the same key.
\<close>

definition product_map_of ::
  "('oid, 'p) runtime \<Rightarrow> ('oid \<times> nat list) list \<Rightarrow> (string \<rightharpoonup> 'oid \<times> nat list)" where
  "product_map_of rt details = fold (\<lambda>p m. m(str_ObjectId rt (fst p) \<mapsto> p)) details Map.empty"

text \<open>
  The loop of lines 263 to 274. \<^verbatim>\<open>product_map.get\<close> gives \<^verbatim>\<open>None\<close> for a missing
  key, and \<^verbatim>\<open>if product_info:\<close> then skips the item.
\<close>

fun order_items_of ::
  "(string \<rightharpoonup> 'oid \<times> nat list) \<Rightarrow> 'p line_doc list \<Rightarrow> OrderItemDetail list" where
  "order_items_of product_map [] = []"
| "order_items_of product_map (item # rest) =
     (case product_map (productid_line item) of
        None \<Rightarrow> order_items_of product_map rest
      | Some product_info \<Rightarrow>
          \<lparr>productDetails_OID = \<lparr>name_PD = snd product_info, id_PD = productid_line item\<rparr>,
           qty_OID = qty_line item\<rparr> # order_items_of product_map rest)"

text \<open>The body of the loop over the orders, lines 259 to 282.\<close>

definition order_detail_of ::
  "('oid, 'p) runtime \<Rightarrow> ('oid, 'p) product_doc list \<Rightarrow> ('oid, 'p) order_doc \<Rightarrow> 'p OrderDetail" where
  "order_detail_of rt products order_doc =
     (let product_map = product_map_of rt (product_details rt products order_doc);
          order_items = order_items_of product_map (items_ord order_doc)
      in \<lparr>id_OD = str_ObjectId rt (id_ord order_doc), items_OD = order_items,
          total_OD = total_ord order_doc\<rparr>)"

text \<open>
  The first four stages of the pipeline, lines 228 to 231: \<^verbatim>\<open>$match\<close> on
  \<^verbatim>\<open>userId\<close>, \<^verbatim>\<open>$sort\<close> on \<^verbatim>\<open>_id\<close>, \<^verbatim>\<open>$skip\<close> and \<^verbatim>\<open>$limit\<close>. A count
  that is not taken as \<^verbatim>\<open>$skip\<close> makes \<^verbatim>\<open>aggregate\<close> raise, which is \<open>None\<close>.
\<close>

definition user_orders_page ::
  "('oid::linorder, 'p) runtime \<Rightarrow> ('oid, 'p) order_doc list \<Rightarrow> string \<Rightarrow> int \<Rightarrow> int \<Rightarrow>
     ('oid, 'p) order_doc list option" where
  "user_orders_page rt orders user_id offset limit =
     (if \<not> accepts_skip rt offset then None
      else Some (take (nat limit) (drop (nat offset)
             (sort_key id_ord (filter (\<lambda>order_doc. userId_ord order_doc = user_id) orders)))))"

text \<open>
  \<^verbatim>\<open>get_user_orders\<close>, lines 219 to 289. An \<^verbatim>\<open>aggregate\<close> that raises is answered
  with status 500 (lines 288 and 289); the message of the exception is left out of the
  detail. The result is what the handler returns; turning it into the body of the
  response is FastAPI's.
\<close>

definition get_user_orders ::
  "('oid::linorder, 'p) runtime \<Rightarrow> ('oid, 'p) database \<Rightarrow> string \<Rightarrow> int \<Rightarrow> int \<Rightarrow>
     error + 'p OrderListResponse" where
  "get_user_orders rt db user_id limit offset =
     (case Query_errors limit offset of
        e # es \<Rightarrow> Inl (RequestValidationError (e # es))
      | [] \<Rightarrow>
          let total_count =
                int (length (filter (\<lambda>order_doc. userId_ord order_doc = user_id)
                               (orders_collection db)))
          in (case user_orders_page rt (orders_collection db) user_id offset limit of
                None \<Rightarrow> Inl (HTTPException 500 ''Failed to fetch orders: '')
              | Some orders_cursor \<Rightarrow>
                  let orders = map (order_detail_of rt (products_collection db)) orders_cursor;
                      page_info = create_pagination_info offset limit total_count
                  in Inr \<lparr>data_OLR = orders, page_OLR = page_info\<rparr>))"

section \<open>A runtime to compute with\<close>

text \<open>
  One instance of the parameters, used to evaluate the handlers on concrete requests:
  identifiers are natural numbers, written as 24 hexadecimal digits (read in either case,
  printed in lower case), and prices are real numbers, so every integer converts.
\<close>

definition hex_digit :: "char \<Rightarrow> nat option" where
  "hex_digit c =
     map_of (zip ''0123456789abcdef'' [0, 1, 2, 3, 4, 5, 6, 7, 8, 9, 10, 11, 12, 13, 14, 15] @
             zip ''ABCDEF'' [10, 11, 12, 13, 14, 15]) c"

fun hex_to_nat :: "nat \<Rightarrow> string \<Rightarrow> nat option" where
  "hex_to_nat acc [] = Some acc"
| "hex_to_nat acc (c # cs) =
     (case hex_digit c of None \<Rightarrow> None | Some d \<Rightarrow> hex_to_nat (16 * acc + d) cs)"

definition hex_ObjectId :: "string \<Rightarrow> nat option" where
  "hex_ObjectId s = (if length s = 24 then hex_to_nat 0 s else None)"

fun nat_to_hex :: "nat \<Rightarrow> nat \<Rightarrow> string \<Rightarrow> string" where
  "nat_to_hex 0 n acc = acc"
| "nat_to_hex (Suc k) n acc = nat_to_hex k (n div 16) (''0123456789abcdef'' ! (n mod 16) # acc)"

definition hex_str :: "nat \<Rightarrow> string" where
  "hex_str n = nat_to_hex 24 n []"

text \<open>
  The store's side of this instance: letters A to Z are compared with their lower case
  forms, a pattern is compiled when it has no NUL character and at most 32764
  characters, and an integer is encoded when it fits into 64 bits.
\<close>

definition ascii_fold :: "nat \<Rightarrow> nat" where
  "ascii_fold c = (if 65 \<le> c \<and> c \<le> 90 then c + 32 else c)"

definition bson_int :: "int \<Rightarrow> bool" where
  "bson_int n = (- (2 ^ 63) \<le> n \<and> n < 2 ^ 63)"

definition hex_runtime :: "(nat, real) runtime" where
  "hex_runtime =
     \<lparr>ObjectId = hex_ObjectId, str_ObjectId = hex_str, int_to_float = (\<lambda>i. Some (real_of_int i)),
      matches_caseless = (\<lambda>a c. ascii_fold a = ascii_fold c),
      accepts_pattern = (\<lambda>pattern. 0 \<notin> set pattern \<and> length pattern \<le> 32764),
      accepts_skip = bson_int,
      accepts_product = (\<lambda>doc. list_all (\<lambda>s. bson_int (quantity_S s)) (sizes_prod doc)),
      accepts_order = (\<lambda>doc. list_all (\<lambda>l. bson_int (qty_line l)) (items_ord doc))\<rparr>"

section \<open>Notions used to state the properties\<close>

text \<open>
  The product an item of a request resolves to: lines 182 and 186 without the two
  \<^verbatim>\<open>raise\<close>s, \<open>None\<close> where either would be reached.
\<close>

definition resolve_product ::
  "('oid, 'p) runtime \<Rightarrow> ('oid, 'p) product_doc list \<Rightarrow> OrderItem \<Rightarrow> ('oid, 'p) product_doc option" where
  "resolve_product rt products item =
     (case ObjectId rt (productid_OI item) of
        None \<Rightarrow> None
      | Some product_id \<Rightarrow> find_one products product_id)"

text \<open>The dictionary appended to \<^verbatim>\<open>validated_items\<close> in lines 193 to 198.\<close>

definition line_of :: "OrderItem \<Rightarrow> ('oid, 'p::times) product_doc \<Rightarrow> 'p \<Rightarrow> 'p line_doc" where
  "line_of item product qty =
     \<lparr>productid_line = productid_OI item, qty_line = qty_OI item,
      price_line = price_prod product, item_total_line = price_prod product * qty\<rparr>"

text \<open>
  A name contains a filter, compared without regard to case, when some contiguous piece
  of the name is matched by the filter character by character, in the store's
  comparison of option \<^verbatim>\<open>i\<close>.
\<close>

definition contains_caseless :: "('oid, 'p) runtime \<Rightarrow> nat list \<Rightarrow> nat list \<Rightarrow> bool" where
  "contains_caseless rt n s =
     (\<exists>before piece after. s = before @ piece @ after \<and> list_all2 (matches_caseless rt) n piece)"

text \<open>
  What the product listing is to select, said directly on the strings: the name contains
  the name filter, and some size of the product has the given label. An absent filter
  selects everything, and so does an empty size label, which the handler does not put
  into the query (line 145).
\<close>

definition selected ::
  "('oid, 'p) runtime \<Rightarrow> nat list option \<Rightarrow> string option \<Rightarrow> ('oid, 'p) product_doc \<Rightarrow> bool" where
  "selected rt name size_label doc =
     ((case name of
         None \<Rightarrow> True
       | Some n \<Rightarrow> contains_caseless rt n (name_prod doc)) \<and>
      (case size_label of
         None \<Rightarrow> True
       | Some v \<Rightarrow> v = [] \<or> v \<in> set (map size_S (sizes_prod doc))))"

text \<open>
  Whether the store compiles the pattern that a name filter is sent as; an absent or
  empty filter sends none.
\<close>

definition pattern_accepted :: "('oid, 'p) runtime \<Rightarrow> nat list option \<Rightarrow> bool" where
  "pattern_accepted rt name =
     (case name of None \<Rightarrow> True | Some n \<Rightarrow> n = [] \<or> accepts_pattern rt (re_escape n))"

section \<open>Sample data\<close>

text \<open>
  Two products and a request for two of the first and three of the second, to evaluate
  the handlers on.
\<close>

definition cap :: "(nat, real) product_doc" where
  "cap = \<lparr>id_prod = 1, name_prod = code_points ''Cap A.B'', price_prod = 10,
          sizes_prod = [\<lparr>size_S = ''M'', quantity_S = 3\<rparr>], created_at_prod = 100\<rparr>"

definition scarf :: "(nat, real) product_doc" where
  "scarf = \<lparr>id_prod = 2, name_prod = code_points ''Scarf aXb'', price_prod = 5,
            sizes_prod = [\<lparr>size_S = ''L'', quantity_S = 0\<rparr>], created_at_prod = 101\<rparr>"

definition shop :: "(nat, real) database" where
  "shop = \<lparr>products_collection = [cap, scarf], orders_collection = []\<rparr>"


text \<open>
  Three items: two of the first product, one of a product that is not in the collection,
  and one whose \<^verbatim>\<open>productid\<close> is not an identifier.
\<close>

definition cap_item :: OrderItem where
  "cap_item = \<lparr>productid_OI = ''000000000000000000000001'', qty_OI = 2\<rparr>"

definition missing_item :: OrderItem where
  "missing_item = \<lparr>productid_OI = ''000000000000000000000009'', qty_OI = 1\<rparr>"

definition malformed_item :: OrderItem where
  "malformed_item = \<lparr>productid_OI = ''not-an-id'', qty_OI = 1\<rparr>"

text \<open>A product with no sizes and an order with no items.\<close>

definition no_sizes :: "real Product" where
  "no_sizes = \<lparr>name_P = code_points ''Gift card'', price_P = 25, sizes_P = []\<rparr>"

definition no_items :: CreateOrder where
  "no_items = \<lparr>userId_CO = ''u1'', items_CO = []\<rparr>"

text \<open>
  A database in which an order of user \<^verbatim>\<open>u1\<close> has two lines, the second for a product
  that is no longer in the products collection.
\<close>

definition gone_order :: "(nat, real) order_doc" where
  "gone_order =
     \<lparr>id_ord = 7, userId_ord = ''u1'',
      items_ord =
        [\<lparr>productid_line = ''000000000000000000000001'', qty_line = 2, price_line = 10,
          item_total_line = 20\<rparr>,
         \<lparr>productid_line = ''000000000000000000000009'', qty_line = 1, price_line = 15,
          item_total_line = 15\<rparr>],
      total_ord = 35, status_ord = ''created'', created_at_ord = 200\<rparr>"

definition shop_later :: "(nat, real) database" where
  "shop_later = \<lparr>products_collection = [cap, scarf], orders_collection = [gone_order]\<rparr>"

text \<open>
  A products collection into which the scarf was inserted before the cap, although the
  cap has the smaller identifier.
\<close>

definition shop_reversed :: "(nat, real) database" where
  "shop_reversed =
     \<lparr>products_collection =
        [\<lparr>id_prod = 2, name_prod = code_points ''Scarf aXb'', price_prod = 5,
          sizes_prod = [\<lparr>size_S = ''L'', quantity_S = 0\<rparr>], created_at_prod = 100\<rparr>,
         \<lparr>id_prod = 1, name_prod = code_points ''Cap A.B'', price_prod = 10,
          sizes_prod = [\<lparr>size_S = ''M'', quantity_S = 3\<rparr>], created_at_prod = 101\<rparr>],
      orders_collection = []\<rparr>"

section \<open>Pagination\<close>

text \<open>
  Claim C1. For every offset \<open>\<ge> 0\<close>, limit \<open>\<ge> 1\<close> and total count \<open>\<ge> 0\<close> the page
  descriptor has \<^verbatim>\<open>next = offset + limit\<close> exactly when \<open>offset + limit < total_count\<close>
  and no \<^verbatim>\<open>next\<close> otherwise, and \<^verbatim>\<open>previous = max(0, offset - limit)\<close> exactly when
  \<open>offset > 0\<close> and no \<^verbatim>\<open>previous\<close> otherwise. The limit is passed through.
\<close>

theorem create_pagination_info_spec:
  assumes "0 \<le> offset" and "1 \<le> limit" and "0 \<le> total_count"
  shows "next_PI (create_pagination_info offset limit total_count) =
           (if offset + limit < total_count then Some (offset + limit) else None)
    \<and> previous_PI (create_pagination_info offset limit total_count) =
           (if offset > 0 then Some (max 0 (offset - limit)) else None)
    \<and> limit_PI (create_pagination_info offset limit total_count) = limit"
  using assms by (simp add: create_pagination_info_def)

theorem create_pagination_info_spec_witness:
  "next_PI (create_pagination_info 5 10 25) = Some 15
   \<and> previous_PI (create_pagination_info 5 10 25) = Some 0
   \<and> next_PI (create_pagination_info 0 10 5) = None
   \<and> previous_PI (create_pagination_info 0 10 5) = None
   \<and> next_PI (create_pagination_info 30 10 25) = None
   \<and> previous_PI (create_pagination_info 30 10 25) = Some 20"
  using create_pagination_info_spec [of 5 10 25] create_pagination_info_spec [of 0 10 5]
    create_pagination_info_spec [of 30 10 25]
  by simp

section \<open>Order creation: the total\<close>

lemma find_one_id: "find_one docs product_id = Some doc \<Longrightarrow> id_prod doc = product_id"
  by (auto simp: find_one_def find_Some_iff)

lemma validate_items_append:
  assumes "map (resolve_product rt products) pre = map Some ps"
    and "map (\<lambda>item. int_to_float rt (qty_OI item)) pre = map Some qs"
  shows "validate_items rt products (pre @ rest) total_amount validated_items lookups =
           validate_items rt products rest
             (foldl (+) total_amount (map (\<lambda>(p, q). price_prod p * q) (zip ps qs)))
             (validated_items @ map (\<lambda>(item, p, q). line_of item p q) (zip pre (zip ps qs)))
             (lookups @ map id_prod ps)"
  using assms
proof (induction pre arbitrary: ps qs total_amount validated_items lookups)
  case Nil
  then show ?case by simp
next
  case (Cons item pre)
  from Cons.prems obtain p ps' q qs' where
    ps: "ps = p # ps'" and qs: "qs = q # qs'"
    and p: "resolve_product rt products item = Some p"
    and q: "int_to_float rt (qty_OI item) = Some q"
    and rest: "map (resolve_product rt products) pre = map Some ps'"
      "map (\<lambda>item. int_to_float rt (qty_OI item)) pre = map Some qs'"
    by (cases ps; cases qs) auto
  from p obtain product_id where
    oid: "ObjectId rt (productid_OI item) = Some product_id"
    and found: "find_one products product_id = Some p"
    by (auto simp: resolve_product_def split: option.splits)
  have "id_prod p = product_id" using found by (rule find_one_id)
  then show ?case
    using oid found q Cons.IH [OF rest] by (simp add: ps qs line_of_def Let_def)
qed





text \<open>
  In the instance used for evaluation, a quantity of \<open>2 ^ 63\<close> converts to a float and
  is refused by the insert: the answer is status 500 and nothing is stored.
\<close>

lemma create_order_refused_insert:
  "create_order hex_runtime shop 7 200
     \<lparr>userId_CO = ''u1'',
      items_CO = [\<lparr>productid_OI = ''000000000000000000000001'', qty_OI = 2 ^ 63\<rparr>]\<rparr> =
     (Inl (HTTPException 500 ''Failed to create order: ''), shop)"
  by (simp add: create_order_def CreateOrder_errors_def hex_runtime_def hex_ObjectId_def
      hex_digit_def find_one_def shop_def cap_def bson_int_def)

section \<open>Order creation: failures\<close>

lemma validate_items_malformed:
  assumes "map (resolve_product rt products) pre = map Some ps"
    and "map (\<lambda>item. int_to_float rt (qty_OI item)) pre = map Some qs"
    and "ObjectId rt (productid_OI item) = None"
  shows "validate_items rt products (pre @ item # post) 0 [] [] =
           (Inl (HTTPException 400 (''Invalid product ID: '' @ productid_OI item)),
            map id_prod ps)"
  using assms(3) by (simp add: validate_items_append [OF assms(1,2)])

lemma validate_items_missing:
  assumes "map (resolve_product rt products) pre = map Some ps"
    and "map (\<lambda>item. int_to_float rt (qty_OI item)) pre = map Some qs"
    and "ObjectId rt (productid_OI item) = Some product_id"
    and "find_one products product_id = None"
  shows "validate_items rt products (pre @ item # post) 0 [] [] =
           (Inl (HTTPException 404 (''Product not found: '' @ productid_OI item)),
            map id_prod ps @ [product_id])"
  using assms(3,4) by (simp add: validate_items_append [OF assms(1,2)])

lemma create_order_error_keeps_db:
  "create_order rt db oid now order = (Inl err, db') \<Longrightarrow> db' = db"
  by (auto simp: create_order_def Let_def split: list.splits sum.splits if_splits)

lemma validate_items_Inr_resolved:
  "fst (validate_items rt products items total_amount validated_items lookups) = Inr r \<Longrightarrow>
   \<forall>item \<in> set items. resolve_product rt products item \<noteq> None"
proof (induction items arbitrary: total_amount validated_items lookups)
  case Nil
  then show ?case by simp
next
  case (Cons item rest)
  from Cons.prems obtain product_id product qty where
    oid: "ObjectId rt (productid_OI item) = Some product_id"
    and found: "find_one products product_id = Some product"
    and conv: "int_to_float rt (qty_OI item) = Some qty"
    by (auto split: option.splits)
  from Cons.prems have
    "fst (validate_items rt products rest (total_amount + price_prod product * qty)
       (validated_items @
          [\<lparr>productid_line = productid_OI item, qty_line = qty_OI item,
            price_line = price_prod product,
            item_total_line = price_prod product * qty\<rparr>])
       (lookups @ [product_id])) = Inr r"
    by (simp add: oid found conv Let_def)
  then have "\<forall>item \<in> set rest. resolve_product rt products item \<noteq> None"
    by (rule Cons.IH)
  moreover have "resolve_product rt products item \<noteq> None"
    by (simp add: resolve_product_def oid found)
  ultimately show ?case by simp
qed

lemma create_order_invalid_fails:
  assumes "\<exists>item \<in> set (items_CO order). resolve_product rt (products_collection db) item = None"
  shows "\<exists>err. create_order rt db oid now order = (Inl err, db)"
proof (cases "CreateOrder_errors order")
  case (Cons e es)
  then show ?thesis by (simp add: create_order_def)
next
  case Nil
  show ?thesis
  proof (cases "fst (validate_items rt (products_collection db) (items_CO order) 0 [] [])")
    case (Inl err)
    then show ?thesis using Nil by (simp add: create_order_def)
  next
    case (Inr r)
    from validate_items_Inr_resolved [OF this] assms show ?thesis by blast
  qed
qed

lemma hex_samples:
  "hex_ObjectId ''000000000000000000000001'' = Some 1"
  "hex_ObjectId ''000000000000000000000002'' = Some 2"
  "hex_ObjectId ''000000000000000000000009'' = Some 9"
  "hex_ObjectId ''not-an-id'' = None"
  by (simp_all add: hex_ObjectId_def hex_digit_def)

text \<open>
  Claim C3, as stated, fails. In a request whose first item names a product that does not
  exist and whose second item is malformed, an item is malformed and yet the answer is
  the 404 of the first item.
\<close>

theorem missing_before_malformed_counterexample:
  "ObjectId hex_runtime (productid_OI malformed_item) = None
   \<and> create_order hex_runtime shop 7 200
        \<lparr>userId_CO = ''u1'', items_CO = [missing_item, malformed_item]\<rparr> =
       (Inl (HTTPException 404 ''Product not found: 000000000000000000000009''), shop)"
  by (simp add: create_order_def CreateOrder_errors_def missing_item_def malformed_item_def
      hex_runtime_def hex_samples find_one_def shop_def cap_def scarf_def)

text \<open>
  Claim C3, amended. Take a request that meets the declared constraints and an item of it
  such that every earlier item resolves to a product and has a quantity that converts to
  a float. If that item's \<^verbatim>\<open>productid\<close> is malformed, the operation fails with status
  400 and a detail naming it; if it is well formed and matches no product, the operation
  fails with status 404 and a detail naming it. Whenever the operation fails, with these
  or any other error, the database is unchanged; and it does fail whenever some item of
  the request, at any position, is malformed or matches no product, so that no order is
  inserted before every item has been validated.
\<close>

theorem create_order_first_invalid:
  assumes "CreateOrder_errors order = []"
    and "items_CO order = pre @ item # post"
    and "map (resolve_product rt (products_collection db)) pre = map Some ps"
    and "map (\<lambda>item. int_to_float rt (qty_OI item)) pre = map Some qs"
  shows "(ObjectId rt (productid_OI item) = None \<longrightarrow>
            create_order rt db oid now order =
              (Inl (HTTPException 400 (''Invalid product ID: '' @ productid_OI item)), db))
       \<and> (\<forall>product_id.
            ObjectId rt (productid_OI item) = Some product_id \<and>
            find_one (products_collection db) product_id = None \<longrightarrow>
            create_order rt db oid now order =
              (Inl (HTTPException 404 (''Product not found: '' @ productid_OI item)), db))
       \<and> (\<forall>err db'. create_order rt db oid now order = (Inl err, db') \<longrightarrow> db' = db)
       \<and> ((\<exists>it \<in> set (items_CO order).
              resolve_product rt (products_collection db) it = None) \<longrightarrow>
            (\<exists>err. create_order rt db oid now order = (Inl err, db)))"
proof (intro conjI allI impI)
  assume "ObjectId rt (productid_OI item) = None"
  then show "create_order rt db oid now order =
      (Inl (HTTPException 400 (''Invalid product ID: '' @ productid_OI item)), db)"
    using assms(1,2) validate_items_malformed [OF assms(3,4), of item post]
    by (simp add: create_order_def)
next
  fix product_id
  assume "ObjectId rt (productid_OI item) = Some product_id \<and>
    find_one (products_collection db) product_id = None"
  then show "create_order rt db oid now order =
      (Inl (HTTPException 404 (''Product not found: '' @ productid_OI item)), db)"
    using assms(1,2) validate_items_missing [OF assms(3,4), of item product_id post]
    by (simp add: create_order_def)
next
  fix err db'
  assume "create_order rt db oid now order = (Inl err, db')"
  then show "db' = db" by (rule create_order_error_keeps_db)
next
  assume "\<exists>it \<in> set (items_CO order). resolve_product rt (products_collection db) it = None"
  then show "\<exists>err. create_order rt db oid now order = (Inl err, db)"
    by (rule create_order_invalid_fails)
qed

theorem create_order_first_invalid_witness:
  "create_order hex_runtime shop 7 200
     \<lparr>userId_CO = ''u1'', items_CO = [cap_item, malformed_item, missing_item]\<rparr> =
     (Inl (HTTPException 400 ''Invalid product ID: not-an-id''), shop)
   \<and> create_order hex_runtime shop 7 200
     \<lparr>userId_CO = ''u1'', items_CO = [cap_item, missing_item, malformed_item]\<rparr> =
     (Inl (HTTPException 404 ''Product not found: 000000000000000000000009''), shop)"
proof -
  have r: "map (resolve_product hex_runtime (products_collection shop)) [cap_item] =
      map Some [cap]"
    by (simp add: resolve_product_def hex_runtime_def hex_samples find_one_def shop_def
        cap_def cap_item_def)
  have c: "map (\<lambda>item. int_to_float hex_runtime (qty_OI item)) [cap_item] = map Some [2]"
    by (simp add: hex_runtime_def cap_item_def)
  have bad: "ObjectId hex_runtime (productid_OI malformed_item) = None"
    by (simp add: hex_runtime_def malformed_item_def hex_samples)
  have gone: "ObjectId hex_runtime (productid_OI missing_item) = Some 9 \<and>
      find_one (products_collection shop) 9 = None"
    by (simp add: hex_runtime_def missing_item_def hex_samples find_one_def shop_def
        cap_def scarf_def)
  have v: "CreateOrder_errors \<lparr>userId_CO = ''u1'', items_CO = [cap_item, x, y]\<rparr> = []"
    if "0 < qty_OI x" "0 < qty_OI y" for x y
    using that by (simp add: CreateOrder_errors_def cap_item_def)
  have v1: "CreateOrder_errors
      \<lparr>userId_CO = ''u1'', items_CO = [cap_item, malformed_item, missing_item]\<rparr> = []"
    by (rule v) (simp_all add: malformed_item_def missing_item_def)
  have v2: "CreateOrder_errors
      \<lparr>userId_CO = ''u1'', items_CO = [cap_item, missing_item, malformed_item]\<rparr> = []"
    by (rule v) (simp_all add: malformed_item_def missing_item_def)
  show ?thesis
    using create_order_first_invalid [OF v1 _ r c, of malformed_item "[missing_item]" 7 200]
      create_order_first_invalid [OF v2 _ r c, of missing_item "[malformed_item]" 7 200]
      bad gone
    by (simp add: malformed_item_def missing_item_def)
qed

section \<open>Order creation: the order of validation\<close>

text \<open>
  Claim C10. The loop examines the items in list order and stops at the first invalid
  one. Take a request that meets the declared constraints and an item of it such that
  every earlier item resolves to a product and has a quantity that converts. If the item
  is malformed, the loop ends with the 400 naming it, whatever follows it in the list
  (a later item that names a missing product included), and that is the response; the
  identifiers looked up are those of the earlier items, one each, and no other. If the
  item is well formed and matches no product, the loop ends with the 404 naming it, and
  the identifiers looked up are those of the earlier items and its own.
\<close>

theorem create_order_stops_at_first_invalid:
  assumes "CreateOrder_errors order = []"
    and "items_CO order = pre @ item # post"
    and "map (resolve_product rt (products_collection db)) pre = map Some ps"
    and "map (\<lambda>item. int_to_float rt (qty_OI item)) pre = map Some qs"
  shows "(ObjectId rt (productid_OI item) = None \<longrightarrow>
            validate_items rt (products_collection db) (items_CO order) 0 [] [] =
              (Inl (HTTPException 400 (''Invalid product ID: '' @ productid_OI item)),
               map id_prod ps)
            \<and> fst (create_order rt db oid now order) =
                Inl (HTTPException 400 (''Invalid product ID: '' @ productid_OI item)))
       \<and> (\<forall>product_id.
            ObjectId rt (productid_OI item) = Some product_id \<and>
            find_one (products_collection db) product_id = None \<longrightarrow>
            validate_items rt (products_collection db) (items_CO order) 0 [] [] =
              (Inl (HTTPException 404 (''Product not found: '' @ productid_OI item)),
               map id_prod ps @ [product_id])
            \<and> fst (create_order rt db oid now order) =
                Inl (HTTPException 404 (''Product not found: '' @ productid_OI item)))
       \<and> length ps = length pre"
proof (intro conjI allI impI)
  assume bad: "ObjectId rt (productid_OI item) = None"
  show loop: "validate_items rt (products_collection db) (items_CO order) 0 [] [] =
      (Inl (HTTPException 400 (''Invalid product ID: '' @ productid_OI item)), map id_prod ps)"
    unfolding assms(2) using assms(3,4) bad by (rule validate_items_malformed)
  show "fst (create_order rt db oid now order) =
      Inl (HTTPException 400 (''Invalid product ID: '' @ productid_OI item))"
    by (simp add: create_order_def assms(1) loop)
next
  fix product_id
  assume gone: "ObjectId rt (productid_OI item) = Some product_id \<and>
    find_one (products_collection db) product_id = None"
  show loop: "validate_items rt (products_collection db) (items_CO order) 0 [] [] =
      (Inl (HTTPException 404 (''Product not found: '' @ productid_OI item)),
       map id_prod ps @ [product_id])"
    unfolding assms(2) using assms(3,4) gone by (blast intro: validate_items_missing)
  show "fst (create_order rt db oid now order) =
      Inl (HTTPException 404 (''Product not found: '' @ productid_OI item))"
    by (simp add: create_order_def assms(1) loop)
next
  show "length ps = length pre"
    using assms(3) by (metis length_map)
qed

theorem create_order_stops_at_first_invalid_witness:
  "validate_items hex_runtime (products_collection shop)
     [cap_item, malformed_item, missing_item] 0 [] [] =
     (Inl (HTTPException 400 ''Invalid product ID: not-an-id''), [1])
   \<and> fst (create_order hex_runtime shop 7 200
        \<lparr>userId_CO = ''u1'', items_CO = [cap_item, malformed_item, missing_item]\<rparr>) =
      Inl (HTTPException 400 ''Invalid product ID: not-an-id'')
   \<and> validate_items hex_runtime (products_collection shop)
     [cap_item, missing_item, malformed_item] 0 [] [] =
     (Inl (HTTPException 404 ''Product not found: 000000000000000000000009''), [1, 9])"
proof -
  have r: "map (resolve_product hex_runtime (products_collection shop)) [cap_item] =
      map Some [cap]"
    by (simp add: resolve_product_def hex_runtime_def hex_samples find_one_def shop_def
        cap_def cap_item_def)
  have c: "map (\<lambda>item. int_to_float hex_runtime (qty_OI item)) [cap_item] = map Some [2]"
    by (simp add: hex_runtime_def cap_item_def)
  have bad: "ObjectId hex_runtime (productid_OI malformed_item) = None"
    by (simp add: hex_runtime_def malformed_item_def hex_samples)
  have gone: "ObjectId hex_runtime (productid_OI missing_item) = Some 9 \<and>
      find_one (products_collection shop) 9 = None"
    by (simp add: hex_runtime_def missing_item_def hex_samples find_one_def shop_def
        cap_def scarf_def)
  have v: "CreateOrder_errors \<lparr>userId_CO = ''u1'', items_CO = [cap_item, x, y]\<rparr> = []"
    if "0 < qty_OI x" "0 < qty_OI y" for x y
    using that by (simp add: CreateOrder_errors_def cap_item_def)
  have v1: "CreateOrder_errors
      \<lparr>userId_CO = ''u1'', items_CO = [cap_item, malformed_item, missing_item]\<rparr> = []"
    by (rule v) (simp_all add: malformed_item_def missing_item_def)
  have v2: "CreateOrder_errors
      \<lparr>userId_CO = ''u1'', items_CO = [cap_item, missing_item, malformed_item]\<rparr> = []"
    by (rule v) (simp_all add: malformed_item_def missing_item_def)
  have names: "productid_OI malformed_item = ''not-an-id''"
    "productid_OI missing_item = ''000000000000000000000009''" "id_prod cap = 1"
    by (simp_all add: malformed_item_def missing_item_def cap_def)
  show ?thesis
    using create_order_stops_at_first_invalid
        [OF v1 _ r c, of malformed_item "[missing_item]" 7 200]
      create_order_stops_at_first_invalid
        [OF v2 _ r c, of missing_item "[malformed_item]" 7 200]
      bad gone
    by (simp add: names del: validate_items.simps)
qed

section \<open>Empty lists\<close>

text \<open>
  Claim C8, as stated, fails. \<^verbatim>\<open>sizes: List[Size]\<close> and \<^verbatim>\<open>items: List[OrderItem]\<close>
  declare no minimum length, so a product with no sizes and an order with no items are
  both accepted and inserted.
\<close>

theorem empty_lists_counterexample:
  "sizes_P no_sizes = []
   \<and> create_product hex_runtime shop 3 300 no_sizes =
       (Inr \<lparr>id_PR = ''000000000000000000000003''\<rparr>,
        shop\<lparr>products_collection :=
          [cap, scarf,
           \<lparr>id_prod = 3, name_prod = code_points ''Gift card'', price_prod = 25, sizes_prod = [],
            created_at_prod = 300\<rparr>]\<rparr>)
   \<and> items_CO no_items = []
   \<and> create_order hex_runtime shop 7 200 no_items =
       (Inr \<lparr>id_OR = ''000000000000000000000007''\<rparr>,
        shop\<lparr>orders_collection :=
          [\<lparr>id_ord = 7, userId_ord = ''u1'', items_ord = [], total_ord = 0,
            status_ord = ''created'', created_at_ord = 200\<rparr>]\<rparr>)"
proof -
  have s: "hex_str 3 = ''000000000000000000000003''" "hex_str 7 = ''000000000000000000000007''"
    by code_simp+
  show ?thesis
    by (simp add: create_product_def create_order_def Product_errors_def CreateOrder_errors_def
        no_sizes_def no_items_def hex_runtime_def s shop_def)
qed

text \<open>
  Claim C8, amended. An empty list of sizes and an empty list of items are not rejected
  as validation errors. A product with a positive price and no sizes is given to the
  store as it is, and an order with no items is given to the store with no items and
  total \<open>0.0\<close>. When the store accepts the document, it is inserted and the request is
  answered with the new identifier; when the store refuses it, the answer is status 500.
\<close>

theorem empty_lists_accepted:
  "(0 < price_P product \<and> sizes_P product = [] \<longrightarrow>
      create_product rt db oid now product =
        (if accepts_product rt
              \<lparr>id_prod = oid, name_prod = name_P product, price_prod = price_P product,
               sizes_prod = [], created_at_prod = now\<rparr>
         then (Inr \<lparr>id_PR = str_ObjectId rt oid\<rparr>,
               db\<lparr>products_collection := products_collection db @
                 [\<lparr>id_prod = oid, name_prod = name_P product, price_prod = price_P product,
                   sizes_prod = [], created_at_prod = now\<rparr>]\<rparr>)
         else (Inl (HTTPException 500 ''Failed to create product: ''), db)))
   \<and> (items_CO order = [] \<longrightarrow>
      create_order rt db oid now order =
        (if accepts_order rt
              \<lparr>id_ord = oid, userId_ord = userId_CO order, items_ord = [], total_ord = 0,
               status_ord = ''created'', created_at_ord = now\<rparr>
         then (Inr \<lparr>id_OR = str_ObjectId rt oid\<rparr>,
               db\<lparr>orders_collection := orders_collection db @
                 [\<lparr>id_ord = oid, userId_ord = userId_CO order, items_ord = [], total_ord = 0,
                   status_ord = ''created'', created_at_ord = now\<rparr>]\<rparr>)
         else (Inl (HTTPException 500 ''Failed to create order: ''), db)))"
  by (simp add: create_product_def create_order_def Product_errors_def CreateOrder_errors_def)

theorem empty_lists_accepted_witness:
  "fst (create_product hex_runtime shop 3 300 no_sizes) = Inr \<lparr>id_PR = ''000000000000000000000003''\<rparr>
   \<and> length (products_collection (snd (create_product hex_runtime shop 3 300 no_sizes))) = 3
   \<and> fst (create_order hex_runtime shop 7 200 no_items) = Inr \<lparr>id_OR = ''000000000000000000000007''\<rparr>
   \<and> length (orders_collection (snd (create_order hex_runtime shop 7 200 no_items))) = 1"
proof -
  have s: "hex_str 3 = ''000000000000000000000003''" "hex_str 7 = ''000000000000000000000007''"
    by code_simp+
  have p: "0 < price_P no_sizes \<and> sizes_P no_sizes = []" and i: "items_CO no_items = []"
    by (simp_all add: no_sizes_def no_items_def)
  have a: "accepts_product hex_runtime
      \<lparr>id_prod = oid, name_prod = n, price_prod = pr, sizes_prod = [], created_at_prod = t\<rparr>"
    "accepts_order hex_runtime
      \<lparr>id_ord = oid, userId_ord = u, items_ord = [], total_ord = 0, status_ord = st,
       created_at_ord = t\<rparr>" for oid n pr t u st
    by (simp_all add: hex_runtime_def)
  show ?thesis
    using empty_lists_accepted [where product = no_sizes and rt = hex_runtime and db = shop
          and oid = 3 and now = 300 and order = no_items]
      empty_lists_accepted [where product = no_sizes and rt = hex_runtime and db = shop
          and oid = 7 and now = 200 and order = no_items] p i
    by (simp add: a) (simp add: hex_runtime_def s shop_def)
qed

section \<open>Limit and offset out of range\<close>

text \<open>
  Claim C7, as stated, fails in the status: a limit of 0 on the product listing and an
  offset of -1 on the orders of a user are rejected with the validation error that
  FastAPI answers with status 422, not 400.
\<close>

theorem query_constraints_counterexample:
  "list_products hex_runtime shop None None 0 0 =
     Inl (RequestValidationError [[Name ''query'', Name ''limit'']])
   \<and> get_user_orders hex_runtime shop ''u1'' 10 (- 1) =
     Inl (RequestValidationError [[Name ''query'', Name ''offset'']])
   \<and> status_code (RequestValidationError [[Name ''query'', Name ''limit'']]) = 422
   \<and> status_code (RequestValidationError [[Name ''query'', Name ''offset'']]) = 422"
  by (simp add: list_products_def get_user_orders_def Query_errors_def)

text \<open>
  Claim C7, amended. When the limit is outside 1 to 100 or the offset is negative, the
  product listing and the orders of a user both fail with a validation error of status
  422. The error names the query parameter \<^verbatim>\<open>limit\<close> exactly when the limit is out
  of range and the parameter \<^verbatim>\<open>offset\<close> exactly when the offset is negative. The
  answer is the same for every database, so nothing is read from the store; neither
  handler writes to it.
\<close>

theorem query_constraints_rejected:
  assumes "\<not> (1 \<le> limit \<and> limit \<le> 100) \<or> offset < 0"
  shows "\<exists>errs.
           errs \<noteq> []
         \<and> (\<forall>db name size_label. list_products rt db name size_label limit offset =
               Inl (RequestValidationError errs))
         \<and> (\<forall>db user_id. get_user_orders rt db user_id limit offset =
               Inl (RequestValidationError errs))
         \<and> status_code (RequestValidationError errs) = 422
         \<and> ([Name ''query'', Name ''limit''] \<in> set errs) = (\<not> (1 \<le> limit \<and> limit \<le> 100))
         \<and> ([Name ''query'', Name ''offset''] \<in> set errs) = (offset < 0)"
proof -
  from assms obtain e es where errs: "Query_errors limit offset = e # es"
    by (cases "Query_errors limit offset") (auto simp: Query_errors_def split: if_splits)
  have "\<forall>db name size_label. list_products rt db name size_label limit offset =
      Inl (RequestValidationError (e # es))"
    by (simp add: list_products_def errs)
  moreover have "\<forall>db user_id. get_user_orders rt db user_id limit offset =
      Inl (RequestValidationError (e # es))"
    by (simp add: get_user_orders_def errs)
  moreover have "([Name ''query'', Name ''limit''] \<in> set (e # es)) =
      (\<not> (1 \<le> limit \<and> limit \<le> 100))"
    unfolding errs [symmetric] by (auto simp: Query_errors_def)
  moreover have "([Name ''query'', Name ''offset''] \<in> set (e # es)) = (offset < 0)"
    unfolding errs [symmetric] by (auto simp: Query_errors_def)
  ultimately show ?thesis
    by (intro exI [of _ "e # es"]) simp
qed

theorem query_constraints_rejected_witness:
  "list_products hex_runtime shop (Some (code_points ''cap'')) None 101 0 =
     Inl (RequestValidationError [[Name ''query'', Name ''limit'']])
   \<and> get_user_orders hex_runtime shop ''u1'' 0 (- 5) =
     Inl (RequestValidationError [[Name ''query'', Name ''limit''], [Name ''query'', Name ''offset'']])"
proof -
  obtain errs where
    l: "\<forall>db name size_label. list_products hex_runtime db name size_label 101 0 =
      Inl (RequestValidationError errs)"
    and g: "\<forall>db user_id. get_user_orders hex_runtime db user_id 101 0 =
      Inl (RequestValidationError errs)"
    using query_constraints_rejected [of 101 0 hex_runtime] by auto
  obtain errs' where
    l': "\<forall>db name size_label. list_products hex_runtime db name size_label 0 (- 5) =
      Inl (RequestValidationError errs')"
    and g': "\<forall>db user_id. get_user_orders hex_runtime db user_id 0 (- 5) =
      Inl (RequestValidationError errs')"
    using query_constraints_rejected [of 0 "- 5" hex_runtime] by auto
  have "errs = [[Name ''query'', Name ''limit'']]"
    using g [rule_format, of shop "''u1''"] by (simp add: get_user_orders_def Query_errors_def)
  moreover have "errs' = [[Name ''query'', Name ''limit''], [Name ''query'', Name ''offset'']]"
    using l' [rule_format, of shop None None] by (simp add: list_products_def Query_errors_def)
  ultimately show ?thesis using l g' by simp
qed

section \<open>Orders of a user: the join\<close>

lemma fold_upd_None:
  "(fold (\<lambda>p m. m(k p \<mapsto> p)) xs m0) key = None \<longleftrightarrow> m0 key = None \<and> key \<notin> k ` set xs"
  by (induction xs arbitrary: m0) auto

lemma fold_upd_Some:
  "(fold (\<lambda>p m. m(k p \<mapsto> p)) xs m0) key = Some v \<Longrightarrow>
   m0 key = Some v \<or> (v \<in> set xs \<and> k v = key)"
proof (induction xs arbitrary: m0)
  case Nil
  then show ?case by simp
next
  case (Cons x xs)
  from Cons.prems have "(fold (\<lambda>p m. m(k p \<mapsto> p)) xs (m0(k x \<mapsto> x))) key = Some v"
    by (simp only: fold_simps o_apply)
  from Cons.IH [OF this] show ?case
    by (auto split: if_splits)
qed

lemma product_map_None:
  "product_map_of rt details key = None \<longleftrightarrow> key \<notin> (\<lambda>p. str_ObjectId rt (fst p)) ` set details"
  by (simp add: product_map_of_def fold_upd_None)

lemma product_map_Some:
  "product_map_of rt details key = Some info \<Longrightarrow>
   info \<in> set details \<and> str_ObjectId rt (fst info) = key"
  using fold_upd_Some [of "\<lambda>p. str_ObjectId rt (fst p)" details Map.empty key info]
  by (simp add: product_map_of_def)

lemma order_items_of_kept:
  "map (\<lambda>d. (id_PD (productDetails_OID d), qty_OID d)) (order_items_of product_map items) =
   map (\<lambda>l. (productid_line l, qty_line l))
     (filter (\<lambda>l. product_map (productid_line l) \<noteq> None) items)"
  by (induction items) (auto split: option.splits)

lemma order_items_of_names:
  "d \<in> set (order_items_of product_map items) \<Longrightarrow>
   \<exists>info. product_map (id_PD (productDetails_OID d)) = Some info \<and>
     name_PD (productDetails_OID d) = snd info"
  by (induction items) (auto split: option.splits)

lemma joined_iff:
  assumes "l \<in> set (items_ord order_doc)"
  shows "product_map_of rt (product_details rt products order_doc) (productid_line l) \<noteq> None
     \<longleftrightarrow> productid_line l \<in> set (map (\<lambda>p. str_ObjectId rt (id_prod p)) products)"
proof -
  have "productid_line l \<in> set (map productid_line (items_ord order_doc))"
    using assms by simp
  then show ?thesis
    unfolding product_map_None product_details_def by force
qed

lemma order_detail_of_items:
  "map (\<lambda>d. (id_PD (productDetails_OID d), qty_OID d))
     (items_OD (order_detail_of rt products order_doc)) =
   map (\<lambda>l. (productid_line l, qty_line l))
     (filter (\<lambda>l. productid_line l \<in> set (map (\<lambda>p. str_ObjectId rt (id_prod p)) products))
        (items_ord order_doc))"
proof -
  have "filter (\<lambda>l. product_map_of rt (product_details rt products order_doc)
            (productid_line l) \<noteq> None) (items_ord order_doc) =
      filter (\<lambda>l. productid_line l \<in> set (map (\<lambda>p. str_ObjectId rt (id_prod p)) products))
        (items_ord order_doc)"
    by (rule filter_cong [OF refl]) (rule joined_iff)
  then show ?thesis
    by (simp add: order_detail_of_def Let_def order_items_of_kept)
qed

lemma order_detail_of_names:
  assumes "d \<in> set (items_OD (order_detail_of rt products order_doc))"
  shows "\<exists>p \<in> set products.
           str_ObjectId rt (id_prod p) = id_PD (productDetails_OID d) \<and>
           name_prod p = name_PD (productDetails_OID d)"
proof -
  have "d \<in> set (order_items_of (product_map_of rt (product_details rt products order_doc))
      (items_ord order_doc))"
    using assms by (simp add: order_detail_of_def Let_def)
  from order_items_of_names [OF this] obtain info where
    info: "product_map_of rt (product_details rt products order_doc)
        (id_PD (productDetails_OID d)) = Some info"
    and name: "name_PD (productDetails_OID d) = snd info"
    by blast
  from product_map_Some [OF info] show ?thesis
    using name by (auto simp: product_details_def)
qed

text \<open>
  Claim C5. With limit and offset in range and an offset that is taken as the count of
  \<^verbatim>\<open>$skip\<close>, the handler returns a response, whatever the orders refer to. Each order of
  the page is returned with those of its lines, in order and with their quantities, whose
  \<^verbatim>\<open>productid\<close> is the string of some product's identifier; the other lines are left
  out. Each returned line carries its \<^verbatim>\<open>productid\<close> and the name of a product of the
  collection that has this identifier.
\<close>

theorem get_user_orders_omits_unresolved:
  assumes "Query_errors limit offset = []" and "accepts_skip rt offset"
  shows "get_user_orders rt db user_id limit offset =
           Inr \<lparr>data_OLR =
                  map (order_detail_of rt (products_collection db))
                    (take (nat limit) (drop (nat offset)
                       (sort_key id_ord
                          (filter (\<lambda>order_doc. userId_ord order_doc = user_id)
                             (orders_collection db))))),
                page_OLR =
                  create_pagination_info offset limit
                    (int (length (filter (\<lambda>order_doc. userId_ord order_doc = user_id)
                                    (orders_collection db))))\<rparr>
       \<and> (\<forall>order_doc.
            map (\<lambda>d. (id_PD (productDetails_OID d), qty_OID d))
              (items_OD (order_detail_of rt (products_collection db) order_doc)) =
            map (\<lambda>l. (productid_line l, qty_line l))
              (filter (\<lambda>l. productid_line l \<in>
                         set (map (\<lambda>p. str_ObjectId rt (id_prod p)) (products_collection db)))
                 (items_ord order_doc))
          \<and> (\<forall>d \<in> set (items_OD (order_detail_of rt (products_collection db) order_doc)).
               \<exists>p \<in> set (products_collection db).
                 str_ObjectId rt (id_prod p) = id_PD (productDetails_OID d) \<and>
                 name_prod p = name_PD (productDetails_OID d)))"
  using assms order_detail_of_items [of rt "products_collection db"]
    order_detail_of_names [of _ rt "products_collection db"]
  by (simp add: get_user_orders_def user_orders_page_def Let_def)

lemma hex_str_samples:
  "hex_str 1 = ''000000000000000000000001''"
  "hex_str 2 = ''000000000000000000000002''"
  "hex_str 3 = ''000000000000000000000003''"
  "hex_str 7 = ''000000000000000000000007''"
  by code_simp+

lemma hex_str_Suc_0: "hex_str (Suc 0) = ''000000000000000000000001''"
  using hex_str_samples(1) by simp

lemma order_detail_of_gone_order:
  "order_detail_of hex_runtime [cap, scarf] gone_order =
     \<lparr>id_OD = ''000000000000000000000007'',
      items_OD = [\<lparr>productDetails_OID =
                     \<lparr>name_PD = code_points ''Cap A.B'',
                      id_PD = ''000000000000000000000001''\<rparr>,
                   qty_OID = 2\<rparr>],
      total_OD = 35\<rparr>"
  by (simp add: order_detail_of_def product_details_def product_map_of_def hex_runtime_def
      hex_str_samples hex_str_Suc_0 gone_order_def cap_def scarf_def)

lemma page_of_shop_later:
  "take (nat 10) (drop (nat 0)
     (sort_key id_ord (filter (\<lambda>order_doc. userId_ord order_doc = ''u1'')
        (orders_collection shop_later)))) = [gone_order]"
  by (simp add: shop_later_def gone_order_def)

theorem get_user_orders_omits_unresolved_witness:
  "get_user_orders hex_runtime shop_later ''u1'' 10 0 =
     Inr \<lparr>data_OLR =
            [\<lparr>id_OD = ''000000000000000000000007'',
              items_OD = [\<lparr>productDetails_OID =
                             \<lparr>name_PD = code_points ''Cap A.B'',
                              id_PD = ''000000000000000000000001''\<rparr>,
                           qty_OID = 2\<rparr>],
              total_OD = 35\<rparr>],
          page_OLR = \<lparr>next_PI = None, limit_PI = 10, previous_PI = None\<rparr>\<rparr>"
proof -
  have q: "Query_errors 10 0 = []" by (simp add: Query_errors_def)
  have k: "accepts_skip hex_runtime 0" by (simp add: hex_runtime_def bson_int_def)
  have n: "filter (\<lambda>order_doc. userId_ord order_doc = ''u1'') (orders_collection shop_later) =
      [gone_order]"
    by (simp add: shop_later_def gone_order_def)
  have p: "products_collection shop_later = [cap, scarf]" by (simp add: shop_later_def)
  have "get_user_orders hex_runtime shop_later ''u1'' 10 0 =
      Inr \<lparr>data_OLR = map (order_detail_of hex_runtime [cap, scarf]) [gone_order],
           page_OLR = create_pagination_info 0 10 (int (length [gone_order]))\<rparr>"
    using get_user_orders_omits_unresolved [OF q k, of shop_later "''u1''", THEN conjunct1,
        unfolded page_of_shop_later, unfolded n p] .
  then show ?thesis
    by (simp add: order_detail_of_gone_order create_pagination_info_def)
qed

text \<open>
  In the instance used for evaluation, an offset of \<open>2 ^ 63\<close> is in the declared range
  and is not taken as a count to skip: both listings answer with status 500.
\<close>

lemma offset_refused:
  "Query_errors 1 (2 ^ 63) = []"
  "get_user_orders hex_runtime shop_later ''u1'' 1 (2 ^ 63) =
     Inl (HTTPException 500 ''Failed to fetch orders: '')"
  "list_products hex_runtime shop None None 1 (2 ^ 63) =
     Inl (HTTPException 500 ''Failed to fetch products: '')"
  by (simp_all add: Query_errors_def get_user_orders_def user_orders_page_def
      list_products_def count_documents_def find_sorted_page_def select_docs_def
      build_query_filter_def hex_runtime_def bson_int_def)

section \<open>Orders of a user: the total\<close>

text \<open>
  Claim C9. With limit and offset in range and an offset that is taken as the count of
  \<^verbatim>\<open>$skip\<close>, the total of each returned order is the total stored in the order
  document, whatever the products collection holds, and so whichever lines are left out:
  the returned totals are those of the documents of the page, which are documents of the
  orders collection, in the same order as the returned identifiers.
\<close>

theorem get_user_orders_total_unchanged:
  assumes "Query_errors limit offset = []" and "accepts_skip rt offset"
  shows "\<forall>products. \<exists>resp.
           get_user_orders rt (db\<lparr>products_collection := products\<rparr>) user_id limit offset =
             Inr resp
         \<and> map total_OD (data_OLR resp) =
             map total_ord
               (take (nat limit) (drop (nat offset)
                  (sort_key id_ord
                     (filter (\<lambda>order_doc. userId_ord order_doc = user_id)
                        (orders_collection db)))))
         \<and> map id_OD (data_OLR resp) =
             map (\<lambda>order_doc. str_ObjectId rt (id_ord order_doc))
               (take (nat limit) (drop (nat offset)
                  (sort_key id_ord
                     (filter (\<lambda>order_doc. userId_ord order_doc = user_id)
                        (orders_collection db)))))
         \<and> set (take (nat limit) (drop (nat offset)
                  (sort_key id_ord
                     (filter (\<lambda>order_doc. userId_ord order_doc = user_id)
                        (orders_collection db))))) \<subseteq>
             set (orders_collection db)"
proof -
  have "set (take (nat limit) (drop (nat offset)
      (sort_key id_ord
         (filter (\<lambda>order_doc. userId_ord order_doc = user_id) (orders_collection db))))) \<subseteq>
      set (orders_collection db)"
    by (auto dest!: in_set_takeD in_set_dropD)
  then show ?thesis
    using assms
    by (simp add: get_user_orders_def user_orders_page_def Let_def order_detail_of_def
        comp_def)
qed

theorem get_user_orders_total_unchanged_witness:
  "\<exists>resp. get_user_orders hex_runtime shop_later ''u1'' 10 0 = Inr resp
     \<and> map total_OD (data_OLR resp) = [35]
     \<and> map (\<lambda>d. length (items_OD d)) (data_OLR resp) = [1]"
proof -
  have q: "Query_errors 10 0 = []" by (simp add: Query_errors_def)
  have k: "accepts_skip hex_runtime 0" by (simp add: hex_runtime_def bson_int_def)
  have same: "shop_later\<lparr>products_collection := [cap, scarf]\<rparr> = shop_later"
    by (simp add: shop_later_def)
  from get_user_orders_total_unchanged [OF q k, of shop_later "''u1''",
      rule_format, of "[cap, scarf]"]
  obtain resp where
    resp: "get_user_orders hex_runtime shop_later ''u1'' 10 0 = Inr resp"
    and total: "map total_OD (data_OLR resp) = map total_ord [gone_order]"
    unfolding page_of_shop_later same by blast
  have p: "products_collection shop_later = [cap, scarf]" by (simp add: shop_later_def)
  have page: "user_orders_page hex_runtime (orders_collection shop_later) ''u1'' 0 10 =
      Some [gone_order]"
    using k page_of_shop_later by (simp add: user_orders_page_def)
  have "map (\<lambda>d. length (items_OD d)) (data_OLR resp) = [1]"
    using resp
    by (auto simp: get_user_orders_def q Let_def page p order_detail_of_gone_order)
  moreover have "map total_OD (data_OLR resp) = [35]"
    using total by (simp add: gone_order_def)
  ultimately show ?thesis using resp by (intro exI [of _ resp] conjI)
qed

section \<open>Product listing: the name filter\<close>

text \<open>An escaped pattern is parsed, and consists of literal characters only.\<close>

lemma special_facts:
  "backslash \<in> set re_special_chars"
  "star \<in> set re_special_chars"
  "dot \<in> set re_special_chars"
  "set other_meta_chars \<subseteq> set re_special_chars"
  "set re_special_chars \<inter> set alnum_chars = {}"
  "backslash \<noteq> star"
  by (simp_all add: re_special_chars_def other_meta_chars_def alnum_chars_def backslash_def
      star_def dot_def code_points_def)

lemma quantified_re_escape: "quantified a (re_escape cs) = (Once a, re_escape cs)"
proof (cases cs)
  case Nil
  then show ?thesis by simp
next
  case (Cons c cs')
  have "c \<noteq> star" if "c \<notin> set re_special_chars"
    using that special_facts(2) by auto
  then show ?thesis using Cons special_facts(6) by auto
qed

lemma parse_regex_re_escape: "parse_regex (re_escape n) = Some (map (\<lambda>c. Once (Lit c)) n)"
proof (induction n)
  case Nil
  then show ?case by simp
next
  case (Cons c cs)
  show ?case
  proof (cases "c \<in> set re_special_chars")
    case True
    then have "c \<notin> set alnum_chars" using special_facts(5) by auto
    then show ?thesis using True Cons.IH by (simp add: quantified_re_escape)
  next
    case False
    then have "c \<noteq> backslash" "c \<noteq> star" "c \<noteq> dot" "c \<notin> set other_meta_chars"
      using special_facts(1-4) by auto
    then show ?thesis using False Cons.IH by (simp add: quantified_re_escape)
  qed
qed

text \<open>
  A pattern of literal characters matches at the start of a string when it matches a
  piece at the start character by character, and is found in a string when it matches
  some piece of it character by character.
\<close>

lemma match_here_literal:
  "match_here cmp (map (\<lambda>c. Once (Lit c)) n) s \<longleftrightarrow>
   (\<exists>piece after. s = piece @ after \<and> list_all2 cmp n piece)"
proof (induction n arbitrary: s)
  case Nil
  then show ?case by simp
next
  case (Cons c cs)
  show ?case
  proof (cases s)
    case Nil
    then show ?thesis by simp
  next
    case (Cons x xs)
    have "(\<exists>piece after. x # xs = piece @ after \<and> list_all2 cmp (c # cs) piece) \<longleftrightarrow>
        (cmp c x \<and> (\<exists>piece after. xs = piece @ after \<and> list_all2 cmp cs piece))"
      by (auto simp: list_all2_Cons1 Cons_eq_append_conv)
    then show ?thesis using Cons Cons.IH [of xs] by simp
  qed
qed

lemma regex_search_literal:
  "regex_search cmp (map (\<lambda>c. Once (Lit c)) n) s \<longleftrightarrow>
   (\<exists>before piece after. s = before @ piece @ after \<and> list_all2 cmp n piece)"
proof (induction s)
  case Nil
  show ?case using match_here_literal [of cmp n "[]"] by simp
next
  case (Cons x xs)
  have "(\<exists>before piece after. x # xs = before @ piece @ after \<and> list_all2 cmp n piece) \<longleftrightarrow>
      (\<exists>piece after. x # xs = piece @ after \<and> list_all2 cmp n piece) \<or>
      (\<exists>before piece after. xs = before @ piece @ after \<and> list_all2 cmp n piece)"
    (is "?l \<longleftrightarrow> ?h \<or> ?t")
  proof
    assume ?l
    then obtain before piece after where
      s: "x # xs = before @ piece @ after" and m: "list_all2 cmp n piece"
      by blast
    show "?h \<or> ?t"
    proof (cases before)
      case Nil
      with s m show ?thesis by auto
    next
      case (Cons y before')
      with s have "xs = before' @ piece @ after" by simp
      with m show ?thesis by blast
    qed
  next
    assume "?h \<or> ?t"
    then show ?l
    proof
      assume ?h
      then obtain piece after where "x # xs = [] @ piece @ after" "list_all2 cmp n piece"
        by auto
      then show ?l by blast
    next
      assume ?t
      then obtain before piece after where
        "x # xs = (x # before) @ piece @ after" "list_all2 cmp n piece"
        by auto
      then show ?l by blast
    qed
  qed
  then show ?case
    using match_here_literal [of cmp n "x # xs"] Cons.IH by simp
qed

lemma contains_caseless_regex_search:
  "contains_caseless rt n s \<longleftrightarrow>
   regex_search (matches_caseless rt) (map (\<lambda>c. Once (Lit c)) n) s"
  by (simp add: contains_caseless_def regex_search_literal)

lemma contains_caseless_Nil: "contains_caseless rt [] s"
  unfolding contains_caseless_def by (intro exI [of _ "[]"] exI [of _ s]) simp

lemma matches_selected:
  "matches (matches_caseless rt) None
     (case size_label of None \<Rightarrow> None | Some v \<Rightarrow> if v \<noteq> [] then Some v else None) =
   selected rt None size_label"
  "selected rt (Some []) size_label = selected rt None size_label"
  "matches (matches_caseless rt) (Some (map (\<lambda>c. Once (Lit c)) n))
     (case size_label of None \<Rightarrow> None | Some v \<Rightarrow> if v \<noteq> [] then Some v else None) =
   selected rt (Some n) size_label"
proof -
  show "matches (matches_caseless rt) None
     (case size_label of None \<Rightarrow> None | Some v \<Rightarrow> if v \<noteq> [] then Some v else None) =
   selected rt None size_label"
    by (rule ext) (simp add: matches_def selected_def split: option.splits)
  show "selected rt (Some []) size_label = selected rt None size_label"
    by (rule ext) (simp add: selected_def contains_caseless_Nil)
  show "matches (matches_caseless rt) (Some (map (\<lambda>c. Once (Lit c)) n))
     (case size_label of None \<Rightarrow> None | Some v \<Rightarrow> if v \<noteq> [] then Some v else None) =
   selected rt (Some n) size_label"
    by (rule ext)
      (simp add: matches_def selected_def contains_caseless_regex_search split: option.splits)
qed

lemma select_docs_selected:
  "select_docs rt docs (build_query_filter name size_label) =
     (if pattern_accepted rt name then Some (filter (selected rt name size_label) docs)
      else None)"
proof (cases "name = None \<or> name = Some []")
  case True
  then show ?thesis
    by (auto simp: select_docs_def build_query_filter_def matches_selected
        pattern_accepted_def)
next
  case False
  then obtain n where "name = Some n" "n \<noteq> []" by auto
  then show ?thesis
    by (simp add: select_docs_def build_query_filter_def parse_regex_re_escape
        matches_selected pattern_accepted_def)
qed

lemma list_products_selected:
  assumes "Query_errors limit offset = []"
    and "pattern_accepted rt name" and "accepts_skip rt offset"
  shows "list_products rt db name size_label limit offset =
           Inr \<lparr>data_PLR =
                  map (serialize_object_id rt)
                    (take (nat limit) (drop (nat offset)
                       (sort_key id_prod
                          (filter (selected rt name size_label) (products_collection db))))),
                page_PLR =
                  create_pagination_info offset limit
                    (int (length (filter (selected rt name size_label)
                                    (products_collection db))))\<rparr>"
  using assms
  by (simp add: list_products_def count_documents_def find_sorted_page_def
      select_docs_selected Let_def)

text \<open>
  Unescaped, the pattern \<^verbatim>\<open>a.b\<close> would match \<^verbatim>\<open>aXb\<close>: the dot is a wildcard of
  the pattern syntax.
\<close>

lemma dot_is_a_wildcard:
  "map_option (\<lambda>ps. regex_search (matches_caseless hex_runtime) ps (code_points ''Scarf aXb''))
     (parse_regex (code_points ''a.b'')) = Some True"
  by (simp add: code_points_def backslash_def star_def dot_def newline_def
      other_meta_chars_def hex_runtime_def ascii_fold_def)




section \<open>Product listing: order, slice and fields\<close>

text \<open>
  The handler sorts by \<^verbatim>\<open>_id\<close>. That is the order of insertion when identifiers are
  issued in increasing order, which inserting a product with an identifier above all
  present ones maintains, and which order creation does not touch.
\<close>

lemma create_product_keeps_id_order:
  assumes "sorted_wrt (<) (map id_prod (products_collection db))"
    and "\<forall>doc \<in> set (products_collection db). id_prod doc < oid"
  shows "sorted_wrt (<)
           (map id_prod (products_collection (snd (create_product rt db oid now product))))"
  using assms
  by (cases "Product_errors product")
    (auto simp: create_product_def sorted_wrt_append Let_def split: if_splits)

lemma create_order_keeps_products:
  "products_collection (snd (create_order rt db oid now order)) = products_collection db"
  by (auto simp: create_order_def Let_def split: list.splits sum.splits if_splits)

lemma sort_key_insertion_order:
  assumes "sorted_wrt (<) (map id_prod docs)"
  shows "sort_key id_prod (filter P docs) = filter P docs"
proof -
  have "sorted (map id_prod docs)"
    using assms by (simp add: sorted_wrt_map strict_sorted_imp_sorted
        sorted_wrt_mono_rel [of _ "\<lambda>x y. id_prod x < id_prod y" "\<lambda>x y. id_prod x \<le> id_prod y"])
  then have "sorted (map id_prod (filter P docs))" by (rule sorted_filter)
  then show ?thesis by (rule sort_key_id_if_sorted)
qed

text \<open>
  Claim C6, as stated, fails in the order. In a collection whose second product has the
  smaller \<^verbatim>\<open>_id\<close>, the listing returns the second product first: the order is that of
  \<^verbatim>\<open>_id\<close>, not that of insertion.
\<close>

theorem id_order_counterexample:
  "map name_prod (products_collection shop_reversed) =
     [code_points ''Scarf aXb'', code_points ''Cap A.B'']
   \<and> list_products hex_runtime shop_reversed None None 10 0 =
       Inr \<lparr>data_PLR =
              [\<lparr>id_PLI = ''000000000000000000000001'', name_PLI = code_points ''Cap A.B'',
                price_PLI = 10\<rparr>,
               \<lparr>id_PLI = ''000000000000000000000002'', name_PLI = code_points ''Scarf aXb'',
                price_PLI = 5\<rparr>],
            page_PLR = \<lparr>next_PI = None, limit_PI = 10, previous_PI = None\<rparr>\<rparr>"
  by (simp add: list_products_def Query_errors_def count_documents_def find_sorted_page_def
      select_docs_def build_query_filter_def matches_def serialize_object_id_def
      create_pagination_info_def hex_runtime_def bson_int_def hex_str_samples hex_str_Suc_0
      shop_reversed_def)

text \<open>
  Claim C6, amended. With limit and offset in range, a name filter the store compiles
  and an offset that is taken as the count to skip, the listing takes the selected
  products in ascending order of \<^verbatim>\<open>_id\<close>, skips \<open>offset\<close> of them and returns at most
  \<open>limit\<close>, each as an item with the three fields \<^verbatim>\<open>id\<close> (the string of \<^verbatim>\<open>_id\<close>),
  \<^verbatim>\<open>name\<close> and \<^verbatim>\<open>price\<close>. When the identifiers of the collection increase in the
  order of insertion, the ascending order of \<^verbatim>\<open>_id\<close> is the order of insertion.
\<close>

theorem list_products_order_slice_fields:
  assumes "Query_errors limit offset = []"
    and "pattern_accepted rt name" and "accepts_skip rt offset"
  shows "list_products rt db name size_label limit offset =
           Inr \<lparr>data_PLR =
                  map (\<lambda>doc. \<lparr>id_PLI = str_ObjectId rt (id_prod doc), name_PLI = name_prod doc,
                               price_PLI = price_prod doc\<rparr>)
                    (take (nat limit) (drop (nat offset)
                       (sort_key id_prod
                          (filter (selected rt name size_label) (products_collection db))))),
                page_PLR =
                  create_pagination_info offset limit
                    (int (length (filter (selected rt name size_label)
                                    (products_collection db))))\<rparr>
       \<and> sorted (map id_prod
            (sort_key id_prod (filter (selected rt name size_label) (products_collection db))))
       \<and> (sorted_wrt (<) (map id_prod (products_collection db)) \<longrightarrow>
            sort_key id_prod (filter (selected rt name size_label) (products_collection db)) =
              filter (selected rt name size_label) (products_collection db))"
proof (intro conjI impI)
  have "serialize_object_id rt =
      (\<lambda>doc. \<lparr>id_PLI = str_ObjectId rt (id_prod doc), name_PLI = name_prod doc,
               price_PLI = price_prod doc\<rparr>)"
    by (rule ext) (simp add: serialize_object_id_def)
  then show "list_products rt db name size_label limit offset =
      Inr \<lparr>data_PLR =
             map (\<lambda>doc. \<lparr>id_PLI = str_ObjectId rt (id_prod doc), name_PLI = name_prod doc,
                          price_PLI = price_prod doc\<rparr>)
               (take (nat limit) (drop (nat offset)
                  (sort_key id_prod
                     (filter (selected rt name size_label) (products_collection db))))),
           page_PLR =
             create_pagination_info offset limit
               (int (length (filter (selected rt name size_label) (products_collection db))))\<rparr>"
    using list_products_selected [OF assms, of db size_label] by simp
next
  show "sorted (map id_prod
      (sort_key id_prod (filter (selected rt name size_label) (products_collection db))))"
    by (rule sorted_sort_key)
next
  assume "sorted_wrt (<) (map id_prod (products_collection db))"
  then show "sort_key id_prod (filter (selected rt name size_label) (products_collection db)) =
      filter (selected rt name size_label) (products_collection db)"
    by (rule sort_key_insertion_order)
qed

theorem list_products_order_slice_fields_witness:
  "list_products hex_runtime shop None None 1 1 =
     Inr \<lparr>data_PLR =
            [\<lparr>id_PLI = ''000000000000000000000002'', name_PLI = code_points ''Scarf aXb'',
              price_PLI = 5\<rparr>],
          page_PLR = \<lparr>next_PI = None, limit_PI = 1, previous_PI = Some 0\<rparr>\<rparr>"
proof -
  have q: "Query_errors 1 1 = []" by (simp add: Query_errors_def)
  have k: "accepts_skip hex_runtime 1" by (simp add: hex_runtime_def bson_int_def)
  have c: "pattern_accepted hex_runtime None" by (simp add: pattern_accepted_def)
  have ordered: "sorted_wrt (<) (map id_prod (products_collection shop))"
    by (simp add: shop_def cap_def scarf_def)
  have f: "filter (selected hex_runtime None None) (products_collection shop) = [cap, scarf]"
    by (simp add: shop_def selected_def)
  have in_order: "sort_key id_prod [cap, scarf] = [cap, scarf]"
    using list_products_order_slice_fields [OF q c k, of shop None,
        THEN conjunct2, THEN conjunct2, rule_format, OF ordered, unfolded f] .
  have "list_products hex_runtime shop None None 1 1 =
      Inr \<lparr>data_PLR =
             map (\<lambda>doc. \<lparr>id_PLI = str_ObjectId hex_runtime (id_prod doc),
                          name_PLI = name_prod doc, price_PLI = price_prod doc\<rparr>)
               (take (nat 1) (drop (nat 1) [cap, scarf])),
           page_PLR = create_pagination_info 1 1 (int (length [cap, scarf]))\<rparr>"
    using list_products_order_slice_fields [OF q c k, of shop None,
        THEN conjunct1, unfolded f, unfolded in_order] .
  then show ?thesis
    by (simp add: create_pagination_info_def hex_runtime_def hex_str_samples scarf_def)
qed

end
